theory Spec2Isabelle
  imports Complex_Main "HOL-Library.Char_ord" "HOL-Library.List_Lexorder" "HOL-Library.Multiset"
begin

section \<open>The dataset of dashboard.py\<close>

text \<open>
  One row of the data frame read by \<^verbatim>\<open>load_data\<close>. Every cell of a data frame can be
  null (NaN, NaT), so every column is an option. Identifiers and labels are strings.
  \<^verbatim>\<open>order_revenue\<close> is a float64 number, modelled by the real number it denotes.
  \<^verbatim>\<open>order_purchase_timestamp\<close> is a datetime64 value: nanoseconds since the epoch.
\<close>

record row =
  order_id :: "string option"
  customer_unique_id :: "string option"
  customer_state :: "string option"
  rfm_segment :: "string option"
  order_revenue :: "real option"
  order_purchase_timestamp :: "int option"
  geolocation_lat :: "real option"
  geolocation_lng :: "real option"

type_synonym dataframe = "row list"

section \<open>What numpy leaves open\<close>

text \<open>
  The program sorts with the default sort kind of numpy, which is not stable, and samples
  with numpy's seeded generator. Neither the order that the sort gives to equal values
  nor the numbers that the generator draws are fixed by the program; they are the
  parameter \<open>np\<close> of the model.
  \<^item> \<open>int_ties\<close>, \<open>float_ties\<close>, \<open>object_ties\<close>: for an array of the given dtype, the rank that
    the sort gives to each position among the positions with an equal value;
  \<^item> \<open>random_interval np seed n i\<close>: the number that the generator seeded with \<open>seed\<close>
    draws for the bound \<open>i\<close> while it shuffles \<open>n\<close> positions.
\<close>

record numpy =
  int_ties :: "nat list \<Rightarrow> nat \<Rightarrow> nat"
  float_ties :: "real list \<Rightarrow> nat \<Rightarrow> nat"
  object_ties :: "real list \<Rightarrow> nat \<Rightarrow> nat"
  random_interval :: "nat \<Rightarrow> nat \<Rightarrow> nat \<Rightarrow> nat"

section \<open>The data frame operations the program calls\<close>

text \<open>\<^verbatim>\<open>Series.nunique()\<close>: the number of distinct values, nulls not counted.\<close>

definition nunique :: "('r \<Rightarrow> 'a option) \<Rightarrow> 'r list \<Rightarrow> nat" where
  "nunique col df = length (remdups (List.map_filter col df))"

text \<open>
  \<^verbatim>\<open>Series.sum()\<close> and the sum of a group: nulls are skipped, and the sum of no value is
  0. The model adds exactly; the rounding of the library's float64 sums, which differs
  between \<^verbatim>\<open>Series.sum\<close> and \<^verbatim>\<open>groupby.sum\<close>, is not modelled, and no theorem below
  rests on a sum being exact.
\<close>

definition col_sum :: "('r \<Rightarrow> real option) \<Rightarrow> 'r list \<Rightarrow> real" where
  "col_sum col df = sum_list (List.map_filter col df)"

text \<open>
  \<^verbatim>\<open>df.groupby(by)\<close> with its defaults (\<^verbatim>\<open>sort=True\<close>, \<^verbatim>\<open>dropna=True\<close>): one group for every
  distinct key that is not null, the groups in ascending order of the key.
\<close>

definition group_keys :: "('r \<Rightarrow> 'k::linorder option) \<Rightarrow> 'r list \<Rightarrow> 'k list" where
  "group_keys by df = sort (remdups (List.map_filter by df))"

definition group_rows :: "('r \<Rightarrow> 'k option) \<Rightarrow> 'k \<Rightarrow> 'r list \<Rightarrow> 'r list" where
  "group_rows by k df = filter (\<lambda>r. by r = Some k) df"

text \<open>
  \<^verbatim>\<open>ndarray.argsort()\<close> with the default kind: the positions of the array in ascending
  order of their values. Positions with equal values come in the order of their ranks
  under \<open>ties\<close>, whatever these are.
\<close>

definition argsort :: "('v list \<Rightarrow> nat \<Rightarrow> nat) \<Rightarrow> 'v::linorder list \<Rightarrow> nat list" where
  "argsort ties vs = sort_key (\<lambda>i. vs ! i) (sort_key (ties vs) [0..<length vs])"

text \<open>
  \<^verbatim>\<open>sort_values(col, ascending=False)\<close> on a column without nulls. Pandas reverses the
  table, takes the positions of the ascending sort of the reversed column and reverses
  them.
\<close>

definition sort_values_desc ::
  "('v list \<Rightarrow> nat \<Rightarrow> nat) \<Rightarrow> ('t \<Rightarrow> 'v::linorder) \<Rightarrow> 't list \<Rightarrow> 't list" where
  "sort_values_desc ties col t =
     (let r = rev t
      in rev (map (\<lambda>i. r ! i) (argsort ties (map col r))))"

text \<open>
  The same on a column that may hold nulls (\<^verbatim>\<open>na_position='last'\<close>): the rows with a value
  are sorted, the rows with a null follow them in their order in the table. The column
  is a float64 array when it has no null and an object array when it has one.
\<close>

definition sort_values_desc_na ::
  "('v list \<Rightarrow> nat \<Rightarrow> nat) \<Rightarrow> ('v list \<Rightarrow> nat \<Rightarrow> nat) \<Rightarrow> ('t \<Rightarrow> 'v::linorder option)
     \<Rightarrow> 't list \<Rightarrow> 't list" where
  "sort_values_desc_na ties_float ties_object col t =
     (let ties = (if list_all (\<lambda>r. col r \<noteq> None) t then ties_float else ties_object)
      in sort_values_desc ties (\<lambda>r. the (col r)) (filter (\<lambda>r. col r \<noteq> None) t)
           @ filter (\<lambda>r. col r = None) t)"

section \<open>Filter\<close>

text \<open>\<^verbatim>\<open>.dt.date\<close>: the calendar date of a timestamp, as days since the epoch.\<close>

definition dt_date :: "int \<Rightarrow> int" where
  "dt_date ts = ts div 86400000000000"

text \<open>A comparison of a column with a date is False where the cell is null.\<close>

definition date_ge :: "int option \<Rightarrow> int \<Rightarrow> bool" where
  "date_ge ts d = (case ts of None \<Rightarrow> False | Some t \<Rightarrow> dt_date t \<ge> d)"

definition date_le :: "int option \<Rightarrow> int \<Rightarrow> bool" where
  "date_le ts d = (case ts of None \<Rightarrow> False | Some t \<Rightarrow> dt_date t \<le> d)"

text \<open>Lines 89 to 95: the date range, then the state and the segment unless "(All)".\<close>

definition filter_df :: "dataframe \<Rightarrow> int \<Rightarrow> int \<Rightarrow> string \<Rightarrow> string \<Rightarrow> dataframe" where
  "filter_df df start_date end_date state seg =
     (let df_f = filter (\<lambda>r. date_ge (order_purchase_timestamp r) start_date \<and>
                             date_le (order_purchase_timestamp r) end_date) df;
          df_f = (if state \<noteq> ''(All)''
                  then filter (\<lambda>r. customer_state r = Some state) df_f else df_f);
          df_f = (if seg \<noteq> ''(All)''
                  then filter (\<lambda>r. rfm_segment r = Some seg) df_f else df_f)
      in df_f)"

text \<open>
  The filter as the specification words it: a row is kept iff its date is in the
  range, and the state filter is absent or matches, and the segment filter is absent
  or matches.
\<close>

definition spec_keep :: "int \<Rightarrow> int \<Rightarrow> string \<Rightarrow> string \<Rightarrow> row \<Rightarrow> bool" where
  "spec_keep start_date end_date state seg r =
     ((case order_purchase_timestamp r of None \<Rightarrow> False
       | Some t \<Rightarrow> start_date \<le> dt_date t \<and> dt_date t \<le> end_date) \<and>
      (state = ''(All)'' \<or> customer_state r = Some state) \<and>
      (seg = ''(All)'' \<or> rfm_segment r = Some seg))"

section \<open>KPI\<close>

record kpis =
  kpi_total_revenue :: real
  kpi_total_orders :: nat
  kpi_total_customers :: nat
  kpi_aov :: real

text \<open>Lines 99 to 102.\<close>

definition kpi :: "dataframe \<Rightarrow> kpis" where
  "kpi df_f =
     (let total_revenue = col_sum order_revenue df_f;
          total_orders = nunique order_id df_f;
          total_customers = nunique customer_unique_id df_f;
          aov = (if total_orders \<noteq> 0 then total_revenue / real total_orders else 0)
      in \<lparr>kpi_total_revenue = total_revenue, kpi_total_orders = total_orders,
          kpi_total_customers = total_customers, kpi_aov = aov\<rparr>)"

section \<open>The four aggregations\<close>

record seg_cnt =
  sc_rfm_segment :: string
  sc_customers :: nat

text \<open>Lines 29 to 34.\<close>

definition create_rfm_segment_df :: "numpy \<Rightarrow> dataframe \<Rightarrow> seg_cnt list" where
  "create_rfm_segment_df np df =
     (let seg = map (\<lambda>k. \<lparr>sc_rfm_segment = k,
                           sc_customers = nunique customer_unique_id (group_rows rfm_segment k df)\<rparr>)
                    (group_keys rfm_segment df)
      in sort_values_desc (int_ties np) sc_customers seg)"

record seg_rev =
  sr_rfm_segment :: string
  sr_total_revenue :: real

text \<open>Lines 36 to 41.\<close>

definition create_rfm_revenue_df :: "numpy \<Rightarrow> dataframe \<Rightarrow> seg_rev list" where
  "create_rfm_revenue_df np df =
     (let seg_rev = map (\<lambda>k. \<lparr>sr_rfm_segment = k,
                               sr_total_revenue = col_sum order_revenue (group_rows rfm_segment k df)\<rparr>)
                        (group_keys rfm_segment df)
      in sort_values_desc (float_ties np) sr_total_revenue seg_rev)"

record avg_row =
  av_rfm_segment :: string
  av_customers :: nat
  av_total_revenue :: real
  av_avg_revenue_per_customer :: "real option"

text \<open>\<^verbatim>\<open>Series.replace(0, pd.NA)\<close> on the customers column.\<close>

definition replace_zero_na :: "nat \<Rightarrow> nat option" where
  "replace_zero_na c = (if c = 0 then None else Some c)"

text \<open>A division by a null cell is a null cell.\<close>

definition div_na :: "real \<Rightarrow> nat option \<Rightarrow> real option" where
  "div_na x d = (case d of None \<Rightarrow> None | Some c \<Rightarrow> Some (x / real c))"

text \<open>Lines 44 to 55: the grouped table, the new column, the sort.\<close>

definition create_avg_rev_per_customer_df :: "numpy \<Rightarrow> dataframe \<Rightarrow> avg_row list" where
  "create_avg_rev_per_customer_df np df =
     (let avg_df = map (\<lambda>k. (k, nunique customer_unique_id (group_rows rfm_segment k df),
                                col_sum order_revenue (group_rows rfm_segment k df)))
                       (group_keys rfm_segment df);
          avg_df = map (\<lambda>(k, customers, total_revenue).
                         \<lparr>av_rfm_segment = k, av_customers = customers,
                          av_total_revenue = total_revenue,
                          av_avg_revenue_per_customer =
                            div_na total_revenue (replace_zero_na customers)\<rparr>) avg_df
      in sort_values_desc_na (float_ties np) (object_ties np) av_avg_revenue_per_customer avg_df)"

record state_row =
  sp_customer_state :: string
  sp_total_orders :: nat
  sp_total_revenue :: real

text \<open>Lines 57 to 63.\<close>

definition create_state_perf_df :: "numpy \<Rightarrow> dataframe \<Rightarrow> state_row list" where
  "create_state_perf_df np df =
     (let state_perf = map (\<lambda>k. \<lparr>sp_customer_state = k,
                                  sp_total_orders = nunique order_id (group_rows customer_state k df),
                                  sp_total_revenue = col_sum order_revenue (group_rows customer_state k df)\<rparr>)
                           (group_keys customer_state df)
      in sort_values_desc (float_ties np) sp_total_revenue state_perf)"

text \<open>
  Lines 149 to 167: the table is computed once; the chart by revenue shows its first ten
  rows, the chart by orders the first ten rows of the same table sorted again.
\<close>

record state_charts =
  fig4_data :: "state_row list"
  fig5_data :: "state_row list"

definition state_section :: "numpy \<Rightarrow> dataframe \<Rightarrow> state_charts" where
  "state_section np df_f =
     (let state_perf = create_state_perf_df np df_f
      in \<lparr>fig4_data = take 10 state_perf,
          fig5_data = take 10 (sort_values_desc (int_ties np) sp_total_orders state_perf)\<rparr>)"

text \<open>The column sum of the Segment Revenue table.\<close>

definition seg_rev_sum :: "numpy \<Rightarrow> dataframe \<Rightarrow> real" where
  "seg_rev_sum np df_f = sum_list (map sr_total_revenue (create_rfm_revenue_df np df_f))"

section \<open>The map\<close>

text \<open>
  \<^verbatim>\<open>DataFrame.sample(n, random_state=seed)\<close> takes the rows at the positions
  \<^verbatim>\<open>RandomState(seed).choice(len, size=n, replace=False)\<close>, which are the first \<open>n\<close> positions
  of \<^verbatim>\<open>permutation(len)\<close>. The permutation shuffles \<open>0, ..., len - 1\<close>: for \<open>i\<close> from
  \<open>len - 1\<close> down to 1 it exchanges position \<open>i\<close> with a position that the generator
  draws between 0 and \<open>i\<close>; the model takes the number of the parameter modulo \<open>i + 1\<close>,
  so that it lies there. A sample larger than the table and a position outside the
  table raise.
\<close>

datatype error = ValueError | IndexError

definition swap :: "nat \<Rightarrow> nat \<Rightarrow> 'a list \<Rightarrow> 'a list" where
  "swap i j xs = xs[i := xs ! j, j := xs ! i]"

fun shuffle :: "(nat \<Rightarrow> nat) \<Rightarrow> nat \<Rightarrow> 'a list \<Rightarrow> 'a list" where
  "shuffle draw 0 xs = xs"
| "shuffle draw (Suc i) xs = shuffle draw i (swap (Suc i) (draw (Suc i) mod (Suc (Suc i))) xs)"

definition permutation :: "numpy \<Rightarrow> nat \<Rightarrow> nat \<Rightarrow> nat list" where
  "permutation np seed n = shuffle (random_interval np seed n) (n - 1) [0..<n]"

definition choice :: "numpy \<Rightarrow> nat \<Rightarrow> nat \<Rightarrow> nat \<Rightarrow> error + nat list" where
  "choice np seed pop_size n =
     (if n > pop_size then Inl ValueError else Inr (take n (permutation np seed pop_size)))"

definition take_rows :: "'a list \<Rightarrow> nat list \<Rightarrow> error + 'a list" where
  "take_rows t idx =
     (if list_all (\<lambda>i. i < length t) idx then Inr (map (\<lambda>i. t ! i) idx) else Inl IndexError)"

definition sample :: "numpy \<Rightarrow> 'a list \<Rightarrow> nat \<Rightarrow> nat \<Rightarrow> error + 'a list" where
  "sample np t n random_state =
     (case choice np random_state (length t) n of
        Inl e \<Rightarrow> Inl e
      | Inr sampled_indices \<Rightarrow> take_rows t sampled_indices)"

definition dropna_geo :: "dataframe \<Rightarrow> dataframe" where
  "dropna_geo df = filter (\<lambda>r. geolocation_lat r \<noteq> None \<and> geolocation_lng r \<noteq> None) df"

text \<open>
  Lines 171 to 185. \<open>geo_columns\<close> says whether the data frame has both coordinate columns.
\<close>

datatype map_step = Unavailable | Raised error | Markers dataframe

definition df_map :: "numpy \<Rightarrow> bool \<Rightarrow> dataframe \<Rightarrow> map_step" where
  "df_map np geo_columns df_f =
     (if geo_columns \<and> length (dropna_geo df_f) > 0 then
        (let m = dropna_geo df_f
         in if length m > 3000
            then (case sample np m 3000 42 of Inl e \<Rightarrow> Raised e | Inr s \<Rightarrow> Markers s)
            else Markers m)
      else Unavailable)"

section \<open>The input file\<close>


definition ends_with :: "string \<Rightarrow> string \<Rightarrow> bool" where
  "ends_with suf s = (length suf \<le> length s \<and> drop (length s - length suf) s = suf)"


section \<open>Tie order as the specification words it\<close>

text \<open>The segments in the order in which they first appear in the rows.\<close>

definition spec_first_seen :: "dataframe \<Rightarrow> string list" where
  "spec_first_seen df = rev (remdups (rev (List.map_filter rfm_segment df)))"

text \<open>
  A table keeps that order among equal counts: of two of its rows with the same number
  of customers, the one that comes first has the segment that appears first.
\<close>

definition spec_tie_order :: "dataframe \<Rightarrow> seg_cnt list \<Rightarrow> bool" where
  "spec_tie_order df t =
     sorted_wrt (\<lambda>a b. sc_customers a \<noteq> sc_customers b \<or>
                       sc_rfm_segment a \<in> set (takeWhile (\<lambda>k. k \<noteq> sc_rfm_segment b) (spec_first_seen df))) t"

section \<open>Example rows\<close>

text \<open>A row without coordinates.\<close>

definition mk_row ::
  "string option \<Rightarrow> string option \<Rightarrow> string option \<Rightarrow> string option \<Rightarrow> real option
     \<Rightarrow> int option \<Rightarrow> row" where
  "mk_row oid cust st sg revenue ts =
     \<lparr>order_id = oid, customer_unique_id = cust, customer_state = st,
      rfm_segment = sg, order_revenue = revenue, order_purchase_timestamp = ts,
      geolocation_lat = None, geolocation_lng = None\<rparr>"

text \<open>The three rows of the specification's scenario, on day 17000.\<close>

definition scenario :: dataframe where
  "scenario =
     [mk_row (Some ''o1'') (Some ''A'') (Some ''SP'') (Some ''Champions'') (Some 100)
        (Some 1468800000000000000),
      mk_row (Some ''o2'') (Some ''B'') (Some ''RJ'') (Some ''Champions'') (Some 50)
        (Some 1468800000000000000),
      mk_row (Some ''o3'') (Some ''C'') (Some ''SP'') (Some ''At Risk'') (Some 30)
        (Some 1468800000000000000)]"

text \<open>The scenario with a fourth row whose purchase timestamp is null.\<close>

definition scenario_nat :: dataframe where
  "scenario_nat =
     scenario @ [mk_row (Some ''o4'') (Some ''D'') (Some ''SP'') (Some ''Champions'') (Some 7) None]"

text \<open>A segment whose only row has no customer id, beside a segment with two customers.\<close>

definition degenerate :: dataframe where
  "degenerate =
     [mk_row (Some ''o1'') None (Some ''SP'') (Some ''Lost'') (Some 10) (Some 0),
      mk_row (Some ''o2'') (Some ''A'') (Some ''SP'') (Some ''Loyal'') (Some 30) (Some 0),
      mk_row (Some ''o3'') (Some ''B'') (Some ''RJ'') (Some ''Loyal'') (Some 50) (Some 0)]"

text \<open>Two segments with one customer each, the greater label first in the rows.\<close>

definition tie_rows :: dataframe where
  "tie_rows =
     [mk_row (Some ''o1'') (Some ''A'') (Some ''SP'') (Some ''Loyal'') (Some 10) (Some 0),
      mk_row (Some ''o2'') (Some ''B'') (Some ''SP'') (Some ''At Risk'') (Some 20) (Some 0)]"

text \<open>The scenario with a fourth row that has neither state nor segment.\<close>

definition unsegmented :: dataframe where
  "unsegmented =
     scenario @ [mk_row (Some ''o4'') (Some ''D'') None None (Some 7) (Some 1468800000000000000)]"

text \<open>Four segments: C and D with two customers each, A and B with one each.\<close>

definition four_segments :: dataframe where
  "four_segments =
     [mk_row (Some ''o1'') (Some ''u1'') (Some ''SP'') (Some ''C'') (Some 1) (Some 0),
      mk_row (Some ''o2'') (Some ''u2'') (Some ''SP'') (Some ''C'') (Some 1) (Some 0),
      mk_row (Some ''o3'') (Some ''u3'') (Some ''SP'') (Some ''D'') (Some 1) (Some 0),
      mk_row (Some ''o4'') (Some ''u4'') (Some ''SP'') (Some ''D'') (Some 1) (Some 0),
      mk_row (Some ''o5'') (Some ''u5'') (Some ''SP'') (Some ''A'') (Some 1) (Some 0),
      mk_row (Some ''o6'') (Some ''u6'') (Some ''SP'') (Some ''B'') (Some 1) (Some 0)]"

text \<open>A row without segment and with revenue 0.\<close>

definition free_order :: dataframe where
  "free_order = [mk_row (Some ''o1'') (Some ''A'') (Some ''SP'') None (Some 0) (Some 0)]"

text \<open>
  Two instances of numpy: one whose sort keeps equal values in their order and one whose
  sort reverses them; the generator of both always draws 0.
\<close>

definition numpy_keeping :: numpy where
  "numpy_keeping = \<lparr>int_ties = (\<lambda>vs i. 0), float_ties = (\<lambda>vs i. 0), object_ties = (\<lambda>vs i. 0),
                     random_interval = (\<lambda>seed n i. 0)\<rparr>"

definition numpy_reversing :: numpy where
  "numpy_reversing = \<lparr>int_ties = (\<lambda>vs i. length vs - i), float_ties = (\<lambda>vs i. length vs - i),
                       object_ties = (\<lambda>vs i. length vs - i), random_interval = (\<lambda>seed n i. 0)\<rparr>"

text \<open>A row with both coordinates.\<close>

definition geo_row :: row where
  "geo_row = (mk_row (Some ''o1'') (Some ''A'') (Some ''SP'') (Some ''Loyal'') (Some 10) (Some 0))
               \<lparr>geolocation_lat := Some (- 23), geolocation_lng := Some (- 46)\<rparr>"

section \<open>Unfolding the examples and the data frame operations\<close>

lemmas example_defs = scenario_def scenario_nat_def degenerate_def tie_rows_def unsegmented_def
  four_segments_def free_order_def geo_row_def mk_row_def numpy_keeping_def numpy_reversing_def

lemmas pandas_defs = nunique_def col_sum_def group_keys_def group_rows_def argsort_def
  sort_values_desc_def sort_values_desc_na_def

section \<open>Sorting a table\<close>

text \<open>
  Whatever order numpy gives to equal values, the sorted table has the rows of the table
  and its column descends.
\<close>

lemma mset_argsort: "mset (argsort ties vs) = mset [0..<length vs]"
  by (simp add: argsort_def)

lemma set_argsort: "set (argsort ties vs) = {0..<length vs}"
  by (simp add: argsort_def)

lemma sorted_argsort: "sorted (map (\<lambda>i. vs ! i) (argsort ties vs))"
  by (simp add: argsort_def)

lemma mset_map_nth:
  assumes "mset p = mset [0..<length xs]"
  shows "mset (map (\<lambda>i. xs ! i) p) = mset xs"
proof -
  have "mset (map (\<lambda>i. xs ! i) p) = image_mset (\<lambda>i. xs ! i) (mset p)" by simp
  also have "\<dots> = image_mset (\<lambda>i. xs ! i) (mset [0..<length xs])" by (simp only: assms)
  also have "\<dots> = mset (map (\<lambda>i. xs ! i) [0..<length xs])" by simp
  also have "\<dots> = mset xs" by (simp only: map_nth)
  finally show ?thesis .
qed

lemma mset_sort_values_desc: "mset (sort_values_desc ties col t) = mset t"
proof -
  have "mset (argsort ties (map col (rev t))) = mset [0..<length (rev t)]"
    by (simp add: mset_argsort)
  then have "mset (map (\<lambda>i. rev t ! i) (argsort ties (map col (rev t)))) = mset (rev t)"
    by (rule mset_map_nth)
  then show ?thesis by (simp add: sort_values_desc_def Let_def)
qed

lemma set_sort_values_desc: "set (sort_values_desc ties col t) = set t"
  using mset_sort_values_desc [of ties col t] by (rule mset_eq_setD)

lemma length_sort_values_desc: "length (sort_values_desc ties col t) = length t"
  using mset_sort_values_desc [of ties col t] by (rule mset_eq_length)

lemma distinct_map_sort_values_desc:
  "distinct (map g (sort_values_desc ties col t)) = distinct (map g t)"
proof -
  have "mset (map g (sort_values_desc ties col t)) = mset (map g t)"
    by (simp add: mset_sort_values_desc)
  then show ?thesis by (rule mset_eq_imp_distinct_iff)
qed

lemma sort_values_desc_Nil: "sort_values_desc ties col [] = []"
  by (simp add: sort_values_desc_def argsort_def)

lemma descending_sort_values_desc:
  "sorted_wrt (\<lambda>a b. col a \<ge> col b) (sort_values_desc ties col t)"
proof -
  let ?r = "rev t"
  let ?p = "argsort ties (map col ?r)"
  have "map col (map (\<lambda>i. ?r ! i) ?p) = map (\<lambda>i. map col ?r ! i) ?p"
    by (simp add: set_argsort)
  then have "sorted (map col (map (\<lambda>i. ?r ! i) ?p))"
    by (simp only: sorted_argsort)
  then have "sorted_wrt (\<lambda>a b. col a \<le> col b) (map (\<lambda>i. ?r ! i) ?p)"
    by (simp only: sorted_map)
  then show ?thesis
    by (simp add: sort_values_desc_def Let_def sorted_wrt_rev)
qed




lemma sum_list_sort_values_desc:
  "sum_list (map h (sort_values_desc ties col t)) = sum_list (map h t)"
  for h :: "'a \<Rightarrow> 'b::comm_monoid_add"
proof -
  have "mset (map h (sort_values_desc ties col t)) = mset (map h t)"
    by (simp add: mset_sort_values_desc)
  then have "sum_mset (mset (map h (sort_values_desc ties col t))) = sum_mset (mset (map h t))"
    by (rule arg_cong)
  then show ?thesis by (simp only: sum_mset_sum_list)
qed

section \<open>Grouping\<close>

lemma set_map_filter_col: "set (List.map_filter col df) = {k. \<exists>r\<in>set df. col r = Some k}"
  by (induction df) (auto split: option.splits)

lemma set_group_keys: "set (group_keys by df) = {k. \<exists>r\<in>set df. by r = Some k}"
  by (simp add: group_keys_def set_map_filter_col)

lemma distinct_group_keys: "distinct (group_keys by df)"
  by (simp add: group_keys_def)

lemma nunique_card: "nunique col df = card {v. \<exists>r\<in>set df. col r = Some v}"
  by (simp add: nunique_def length_remdups_card_conv set_map_filter_col)

lemma set_group_rows: "set (group_rows by k df) = {r \<in> set df. by r = Some k}"
  by (auto simp: group_rows_def)

lemma nunique_group_card:
  "nunique col (group_rows by k df) = card {v. \<exists>r\<in>set df. by r = Some k \<and> col r = Some v}"
proof -
  have "{v. \<exists>r\<in>set (group_rows by k df). col r = Some v}
        = {v. \<exists>r\<in>set df. by r = Some k \<and> col r = Some v}"
    by (auto simp: set_group_rows)
  then show ?thesis by (simp add: nunique_card)
qed

lemma group_keys_set_cong: "set df' = set df \<Longrightarrow> group_keys by df' = group_keys by df"
proof -
  assume "set df' = set df"
  then have "set (List.map_filter by df') = set (List.map_filter by df)"
    by (simp add: set_map_filter_col)
  then have "sorted_list_of_set (set (List.map_filter by df'))
             = sorted_list_of_set (set (List.map_filter by df))" by simp
  then show ?thesis by (simp add: group_keys_def sorted_list_of_set_sort_remdups)
qed

lemma group_keys_notnull:
  "group_keys by (filter (\<lambda>r. by r \<noteq> None) df) = group_keys by df"
proof -
  have "List.map_filter by (filter (\<lambda>r. by r \<noteq> None) df) = List.map_filter by df"
    by (induction df) (auto split: option.splits)
  then show ?thesis by (simp add: group_keys_def)
qed

lemma group_rows_notnull:
  "group_rows by k (filter (\<lambda>r. by r \<noteq> None) df) = group_rows by k df"
  by (induction df) (auto simp: group_rows_def)

text \<open>
  The groups share out the rows whose key is not null: every row of the frame is in the
  group of its key, once, or has no key.
\<close>

lemma sum_list_delta:
  "distinct ks \<Longrightarrow> sum_list (map (\<lambda>k. if a = Some k then v else 0) ks)
     = (if \<exists>k\<in>set ks. a = Some k then v else 0)"
  for v :: "'b::comm_monoid_add"
  by (induction ks) auto

lemma groups_partition:
  assumes "distinct ks"
  shows "sum_list (map (\<lambda>k. mset (group_rows by k df)) ks)
         = mset (filter (\<lambda>r. \<exists>k\<in>set ks. by r = Some k) df)"
proof (induction df)
  case Nil
  show ?case by (simp add: group_rows_def)
next
  case (Cons r df)
  have step: "mset (group_rows by k (r # df))
              = (if by r = Some k then {#r#} else {#}) + mset (group_rows by k df)" for k
    by (simp add: group_rows_def)
  have "sum_list (map (\<lambda>k. mset (group_rows by k (r # df))) ks)
        = sum_list (map (\<lambda>k. if by r = Some k then {#r#} else {#}) ks)
          + sum_list (map (\<lambda>k. mset (group_rows by k df)) ks)"
    by (simp add: step sum_list_addf)
  also have "sum_list (map (\<lambda>k. if by r = Some k then {#r#} else {#}) ks)
             = (if \<exists>k\<in>set ks. by r = Some k then {#r#} else {#})"
    using assms by (rule sum_list_delta)
  finally show ?case
    by (simp add: Cons.IH)
qed

lemma rows_partition:
  "mset df = sum_list (map (\<lambda>k. mset (group_rows by k df)) (group_keys by df))
             + mset (filter (\<lambda>r. by r = None) df)"
proof -
  have "filter (\<lambda>r. \<exists>k\<in>set (group_keys by df). by r = Some k) df
        = filter (\<lambda>r. by r \<noteq> None) df"
    by (rule filter_cong) (auto simp: set_group_keys)
  then have "sum_list (map (\<lambda>k. mset (group_rows by k df)) (group_keys by df))
             = mset (filter (\<lambda>r. by r \<noteq> None) df)"
    by (simp only: groups_partition [OF distinct_group_keys])
  moreover have "mset (filter (\<lambda>r. by r \<noteq> None) df) + mset (filter (\<lambda>r. \<not> by r \<noteq> None) df) = mset df"
    by (induction df) auto
  ultimately show ?thesis by simp
qed

section \<open>The filter\<close>

lemma date_range_keep:
  "(date_ge ts s \<and> date_le ts e) = (case ts of None \<Rightarrow> False | Some t \<Rightarrow> s \<le> dt_date t \<and> dt_date t \<le> e)"
  by (simp add: date_ge_def date_le_def split: option.splits)

text \<open>
  C1: the filter keeps exactly the rows whose purchase date lies between start_date and
  end_date, both included, whose customer_state is the selected state unless "(All)" is
  selected, and whose rfm_segment is the selected segment unless "(All)" is selected; a
  row whose purchase timestamp is null is never kept.
\<close>

theorem filter_df_keeps:
  "filter_df df start_date end_date state seg = filter (spec_keep start_date end_date state seg) df \<and>
   (\<forall>r\<in>set df. order_purchase_timestamp r = None \<longrightarrow>
      r \<notin> set (filter_df df start_date end_date state seg))"
proof -
  have eq: "filter_df df start_date end_date state seg
            = filter (spec_keep start_date end_date state seg) df"
    unfolding filter_df_def Let_def spec_keep_def date_range_keep
    by (auto intro: filter_cong)
  have "\<not> spec_keep start_date end_date state seg r" if "order_purchase_timestamp r = None" for r
    using that by (simp add: spec_keep_def)
  with eq show ?thesis by simp
qed

theorem filter_df_keeps_witness:
  "filter_df scenario_nat 17000 17000 ''SP'' ''(All)'' = [scenario ! 0, scenario ! 2] \<and>
   scenario_nat ! 3 \<in> set scenario_nat \<and> order_purchase_timestamp (scenario_nat ! 3) = None \<and>
   scenario_nat ! 3 \<notin> set (filter_df scenario_nat 17000 17000 ''SP'' ''(All)'')"
  using filter_df_keeps [of scenario_nat 17000 17000 "''SP''" "''(All)''"]
  by (simp add: example_defs spec_keep_def dt_date_def)

text \<open>
  C3: when start_date is after end_date the filter returns the empty dataset, each of
  the four aggregations of it is the empty table, and the four KPIs are 0. The filter
  and the aggregations have no failing branch.
\<close>

theorem empty_date_range:
  assumes "start_date > end_date"
  shows "filter_df df start_date end_date state seg = [] \<and>
         create_rfm_segment_df np (filter_df df start_date end_date state seg) = [] \<and>
         create_rfm_revenue_df np (filter_df df start_date end_date state seg) = [] \<and>
         create_avg_rev_per_customer_df np (filter_df df start_date end_date state seg) = [] \<and>
         create_state_perf_df np (filter_df df start_date end_date state seg) = [] \<and>
         kpi (filter_df df start_date end_date state seg)
           = \<lparr>kpi_total_revenue = 0, kpi_total_orders = 0, kpi_total_customers = 0, kpi_aov = 0\<rparr>"
proof -
  have "\<not> (date_ge ts start_date \<and> date_le ts end_date)" for ts
    using assms by (auto simp: date_ge_def date_le_def split: option.splits)
  then have empty: "filter_df df start_date end_date state seg = []"
    by (simp add: filter_df_def Let_def)
  show ?thesis
    unfolding empty
    by (simp add: create_rfm_segment_df_def create_rfm_revenue_df_def
        create_avg_rev_per_customer_df_def create_state_perf_df_def kpi_def pandas_defs)
qed

theorem empty_date_range_witness:
  "(17000::int) < 17001 \<and> filter_df scenario 17001 17000 ''(All)'' ''(All)'' = [] \<and>
   create_state_perf_df numpy_reversing (filter_df scenario 17001 17000 ''(All)'' ''(All)'') = [] \<and>
   kpi (filter_df scenario 17001 17000 ''(All)'' ''(All)'')
     = \<lparr>kpi_total_revenue = 0, kpi_total_orders = 0, kpi_total_customers = 0, kpi_aov = 0\<rparr>"
proof -
  have h: "(17000::int) < 17001" by simp
  show ?thesis
    using h empty_date_range [OF h, of scenario "''(All)''" "''(All)''" numpy_reversing] by blast
qed

section \<open>The KPIs\<close>

text \<open>
  C5: the average order value is total revenue divided by the number of distinct order
  ids when that number is positive, and exactly 0 when it is 0; total revenue is the sum
  of order_revenue and total orders the number of distinct order_id values of the
  filtered dataset.
\<close>

theorem kpi_aov_policy:
  "kpi_total_revenue (kpi df_f) = col_sum order_revenue df_f \<and>
   kpi_total_orders (kpi df_f) = nunique order_id df_f \<and>
   (kpi_total_orders (kpi df_f) > 0 \<longrightarrow>
      kpi_aov (kpi df_f) = kpi_total_revenue (kpi df_f) / real (kpi_total_orders (kpi df_f))) \<and>
   (kpi_total_orders (kpi df_f) = 0 \<longrightarrow> kpi_aov (kpi df_f) = 0)"
  by (simp add: kpi_def Let_def)

theorem kpi_aov_policy_witness:
  "kpi_total_orders (kpi scenario) = 3 \<and> kpi_aov (kpi scenario) = 60 \<and>
   kpi_total_orders (kpi []) = 0 \<and> kpi_aov (kpi []) = 0"
  using kpi_aov_policy [of scenario] kpi_aov_policy [of "[]"]
  by (simp add: kpi_def example_defs pandas_defs)

text \<open>
  A row without segment whose revenue is 0 leaves the KPI total revenue equal to the
  column sum of the Segment Revenue table, although a row without segment is there.
\<close>

theorem kpi_revenue_vs_segments_counterexample:
  "map rfm_segment free_order = [None] \<and>
   map order_revenue free_order = [Some 0] \<and>
   (\<forall>np. create_rfm_revenue_df np free_order = []) \<and>
   (\<forall>np. kpi_total_revenue (kpi free_order) = seg_rev_sum np free_order)"
  by (simp add: kpi_def seg_rev_sum_def create_rfm_revenue_df_def example_defs pandas_defs)

text \<open>
  C10, as the code has it: the KPIs are computed over every row of the filtered dataset,
  whatever its segment and state: the total revenue is the sum of order_revenue, the
  orders and customers are the distinct ids of all rows. The Segment Revenue table is
  computed from the rows with a segment alone: leaving out the rows without segment
  does not change it, it has one row for every segment, and each row holds the sum of
  the revenue of the rows of its segment. Hence the rows that the KPIs cover are, each
  once, the rows of the groups of the table together with the rows without segment.
\<close>

theorem kpi_over_all_rows:
  "kpi_total_revenue (kpi df_f) = col_sum order_revenue df_f \<and>
   kpi_total_orders (kpi df_f) = card {i. \<exists>r\<in>set df_f. order_id r = Some i} \<and>
   kpi_total_customers (kpi df_f) = card {c. \<exists>r\<in>set df_f. customer_unique_id r = Some c} \<and>
   create_rfm_revenue_df np df_f
     = create_rfm_revenue_df np (filter (\<lambda>r. rfm_segment r \<noteq> None) df_f) \<and>
   set (map sr_rfm_segment (create_rfm_revenue_df np df_f))
     = {k. \<exists>r\<in>set df_f. rfm_segment r = Some k} \<and>
   (\<forall>g\<in>set (create_rfm_revenue_df np df_f).
      sr_total_revenue g
        = col_sum order_revenue (group_rows rfm_segment (sr_rfm_segment g) df_f)) \<and>
   mset df_f
     = sum_list (map (\<lambda>g. mset (group_rows rfm_segment (sr_rfm_segment g) df_f))
                  (create_rfm_revenue_df np df_f))
       + mset (filter (\<lambda>r. rfm_segment r = None) df_f)"
proof -
  define u where "u = map (\<lambda>k. \<lparr>sr_rfm_segment = k,
        sr_total_revenue = col_sum order_revenue (group_rows rfm_segment k df_f)\<rparr>)
      (group_keys rfm_segment df_f)"
  have t: "create_rfm_revenue_df np df_f = sort_values_desc (float_ties np) sr_total_revenue u"
    by (simp add: create_rfm_revenue_df_def u_def)
  have kpis: "kpi_total_revenue (kpi df_f) = col_sum order_revenue df_f \<and>
   kpi_total_orders (kpi df_f) = card {i. \<exists>r\<in>set df_f. order_id r = Some i} \<and>
   kpi_total_customers (kpi df_f) = card {c. \<exists>r\<in>set df_f. customer_unique_id r = Some c}"
    by (simp add: kpi_def Let_def nunique_card)
  have same: "create_rfm_revenue_df np df_f
     = create_rfm_revenue_df np (filter (\<lambda>r. rfm_segment r \<noteq> None) df_f)"
    by (simp only: create_rfm_revenue_df_def group_keys_notnull group_rows_notnull)
  have "map sr_rfm_segment u = group_keys rfm_segment df_f"
    by (simp add: u_def comp_def)
  then have "set (map sr_rfm_segment u) = {k. \<exists>r\<in>set df_f. rfm_segment r = Some k}"
    by (simp only: set_group_keys)
  then have keys: "set (map sr_rfm_segment (create_rfm_revenue_df np df_f))
     = {k. \<exists>r\<in>set df_f. rfm_segment r = Some k}"
    by (simp add: t set_sort_values_desc)
  have rows: "sr_total_revenue g
        = col_sum order_revenue (group_rows rfm_segment (sr_rfm_segment g) df_f)"
    if "g \<in> set (create_rfm_revenue_df np df_f)" for g
    using that by (auto simp: t set_sort_values_desc u_def)
  have "sum_list (map (\<lambda>g. mset (group_rows rfm_segment (sr_rfm_segment g) df_f))
                  (create_rfm_revenue_df np df_f))
        = sum_list (map (\<lambda>g. mset (group_rows rfm_segment (sr_rfm_segment g) df_f)) u)"
    unfolding t by (rule sum_list_sort_values_desc)
  also have "\<dots> = sum_list (map (\<lambda>k. mset (group_rows rfm_segment k df_f)) (group_keys rfm_segment df_f))"
    by (simp add: u_def comp_def)
  finally have part: "mset df_f
     = sum_list (map (\<lambda>g. mset (group_rows rfm_segment (sr_rfm_segment g) df_f))
                  (create_rfm_revenue_df np df_f))
       + mset (filter (\<lambda>r. rfm_segment r = None) df_f)"
    using rows_partition [of df_f rfm_segment] by simp
  from kpis same keys rows part show ?thesis by blast
qed

theorem kpi_over_all_rows_witness:
  "kpi (unsegmented) = \<lparr>kpi_total_revenue = 187, kpi_total_orders = 4, kpi_total_customers = 4,
                          kpi_aov = 187 / 4\<rparr> \<and>
   create_rfm_revenue_df numpy_reversing unsegmented
     = [\<lparr>sr_rfm_segment = ''Champions'', sr_total_revenue = 150\<rparr>,
        \<lparr>sr_rfm_segment = ''At Risk'', sr_total_revenue = 30\<rparr>] \<and>
   create_rfm_revenue_df numpy_reversing unsegmented = create_rfm_revenue_df numpy_reversing scenario"
proof -
  have a: "kpi (unsegmented) = \<lparr>kpi_total_revenue = 187, kpi_total_orders = 4,
             kpi_total_customers = 4, kpi_aov = 187 / 4\<rparr>"
    by (simp add: kpi_def example_defs pandas_defs)
  have b: "create_rfm_revenue_df numpy_reversing unsegmented
     = [\<lparr>sr_rfm_segment = ''Champions'', sr_total_revenue = 150\<rparr>,
        \<lparr>sr_rfm_segment = ''At Risk'', sr_total_revenue = 30\<rparr>]"
    by (simp add: create_rfm_revenue_df_def example_defs pandas_defs)
  have "filter (\<lambda>r. rfm_segment r \<noteq> None) unsegmented = scenario"
    by (simp add: example_defs)
  with kpi_over_all_rows [of unsegmented numpy_reversing]
  have c: "create_rfm_revenue_df numpy_reversing unsegmented
           = create_rfm_revenue_df numpy_reversing scenario"
    by simp
  from a b c show ?thesis by blast
qed

section \<open>Average revenue per customer\<close>



section \<open>Segment customer count\<close>

lemma mset_two:
  assumes "mset xs = mset [a, b]"
  shows "xs = [a, b] \<or> xs = [b, a]"
proof -
  from assms have "length xs = length [a, b]" by (rule mset_eq_length)
  then obtain x y where xs: "xs = [x, y]"
    by (cases xs; cases "tl xs") auto
  with assms show ?thesis by (auto simp: add_eq_conv_ex)
qed

lemma tie_rows_table:
  "create_rfm_segment_df np tie_rows
     = sort_values_desc (int_ties np) sc_customers
         [\<lparr>sc_rfm_segment = ''At Risk'', sc_customers = 1\<rparr>,
          \<lparr>sc_rfm_segment = ''Loyal'', sc_customers = 1\<rparr>]"
  by (simp add: create_rfm_segment_df_def tie_rows_def mk_row_def nunique_def group_keys_def
      group_rows_def)

lemma rev_tie_rows_table:
  "create_rfm_segment_df np (rev tie_rows)
     = sort_values_desc (int_ties np) sc_customers
         [\<lparr>sc_rfm_segment = ''At Risk'', sc_customers = 1\<rparr>,
          \<lparr>sc_rfm_segment = ''Loyal'', sc_customers = 1\<rparr>]"
  by (simp add: create_rfm_segment_df_def tie_rows_def mk_row_def nunique_def group_keys_def
      group_rows_def)

text \<open>
  Two segments with one customer each, in rows that show them in one order or in the
  other. The grouped table is the same for both, so whatever numpy does with equal
  counts, one of the two tables does not list the segments in the order of their first
  appearance.
\<close>

theorem segment_customer_count_first_seen_counterexample:
  "\<forall>np. \<not> (spec_tie_order tie_rows (create_rfm_segment_df np tie_rows) \<and>
            spec_tie_order (rev tie_rows) (create_rfm_segment_df np (rev tie_rows)))"
proof
  fix np :: numpy
  let ?a = "\<lparr>sc_rfm_segment = ''At Risk'', sc_customers = 1\<rparr>"
  let ?l = "\<lparr>sc_rfm_segment = ''Loyal'', sc_customers = 1\<rparr>"
  let ?out = "sort_values_desc (int_ties np) sc_customers [?a, ?l]"
  have first: "spec_first_seen tie_rows = [''Loyal'', ''At Risk'']"
    by (simp add: spec_first_seen_def tie_rows_def mk_row_def)
  have second: "spec_first_seen (rev tie_rows) = [''At Risk'', ''Loyal'']"
    by (simp add: spec_first_seen_def tie_rows_def mk_row_def)
  have "mset ?out = mset [?a, ?l]" by (rule mset_sort_values_desc)
  then have "?out = [?a, ?l] \<or> ?out = [?l, ?a]" by (rule mset_two)
  then show "\<not> (spec_tie_order tie_rows (create_rfm_segment_df np tie_rows) \<and>
            spec_tie_order (rev tie_rows) (create_rfm_segment_df np (rev tie_rows)))"
  proof
    assume "?out = [?a, ?l]"
    then have "\<not> spec_tie_order tie_rows (create_rfm_segment_df np tie_rows)"
      by (simp add: tie_rows_table spec_tie_order_def first)
    then show ?thesis by simp
  next
    assume "?out = [?l, ?a]"
    then have "\<not> spec_tie_order (rev tie_rows) (create_rfm_segment_df np (rev tie_rows))"
      by (simp add: rev_tie_rows_table spec_tie_order_def second)
    then show ?thesis by simp
  qed
qed

text \<open>
  With four segments the table follows the sort of numpy: a sort that keeps equal values
  in their order lists C, D, A, B and one that reverses them lists D, C, B, A.
\<close>

lemma tie_order_follows_numpy:
  "map sc_rfm_segment (create_rfm_segment_df numpy_keeping four_segments) = [''C'', ''D'', ''A'', ''B''] \<and>
   map sc_rfm_segment (create_rfm_segment_df numpy_reversing four_segments) = [''D'', ''C'', ''B'', ''A''] \<and>
   spec_first_seen four_segments = [''C'', ''D'', ''A'', ''B'']"
  by (simp add: create_rfm_segment_df_def spec_first_seen_def example_defs pandas_defs)

text \<open>
  C6, as the code has it: the table has one row for every segment that is not null, with
  the number of distinct customer ids of the segment, sorted descending by that number;
  the order of segments with the same number is the one the sort of numpy leaves, and
  the table depends only on the set of rows, not on their order.
\<close>

theorem segment_customer_count:
  "set (map sc_rfm_segment (create_rfm_segment_df np df)) = {k. \<exists>r\<in>set df. rfm_segment r = Some k} \<and>
   distinct (map sc_rfm_segment (create_rfm_segment_df np df)) \<and>
   (\<forall>g\<in>set (create_rfm_segment_df np df).
      sc_customers g = card {c. \<exists>r\<in>set df. rfm_segment r = Some (sc_rfm_segment g) \<and>
                                            customer_unique_id r = Some c}) \<and>
   sorted_wrt (\<lambda>a b. sc_customers a \<ge> sc_customers b) (create_rfm_segment_df np df) \<and>
   (\<forall>df'. set df' = set df \<longrightarrow> create_rfm_segment_df np df' = create_rfm_segment_df np df)"
proof -
  define row_of where "row_of d k = \<lparr>sc_rfm_segment = k,
        sc_customers = nunique customer_unique_id (group_rows rfm_segment k d)\<rparr>"
    for d :: dataframe and k
  define u where "u = map (row_of df) (group_keys rfm_segment df)"
  have "(\<lambda>k. \<lparr>sc_rfm_segment = k,
        sc_customers = nunique customer_unique_id (group_rows rfm_segment k d)\<rparr>) = row_of d" for d
    by (rule ext) (simp add: row_of_def)
  then have t: "create_rfm_segment_df np d
                = sort_values_desc (int_ties np) sc_customers (map (row_of d) (group_keys rfm_segment d))" for d
    by (simp add: create_rfm_segment_df_def)
  have keys: "map sc_rfm_segment u = group_keys rfm_segment df"
    by (simp add: u_def row_of_def comp_def)
  have set_keys: "set (map sc_rfm_segment (sort_values_desc (int_ties np) sc_customers u))
                  = {k. \<exists>r\<in>set df. rfm_segment r = Some k}"
  proof -
    have "set (map sc_rfm_segment (sort_values_desc (int_ties np) sc_customers u))
          = set (map sc_rfm_segment u)"
      by (simp add: set_sort_values_desc)
    then show ?thesis by (simp only: keys set_group_keys)
  qed
  have dist: "distinct (map sc_rfm_segment (sort_values_desc (int_ties np) sc_customers u))"
    by (simp add: distinct_map_sort_values_desc keys distinct_group_keys)
  have count: "sc_customers g = card {c. \<exists>r\<in>set df. rfm_segment r = Some (sc_rfm_segment g) \<and>
                                            customer_unique_id r = Some c}"
    if "g \<in> set u" for g
    using that by (auto simp: u_def row_of_def nunique_group_card)
  have desc: "sorted_wrt (\<lambda>a b. sc_customers a \<ge> sc_customers b)
                (sort_values_desc (int_ties np) sc_customers u)"
    by (rule descending_sort_values_desc)
  have perm: "create_rfm_segment_df np df' = create_rfm_segment_df np df" if eq: "set df' = set df" for df'
  proof -
    have "row_of df' k = row_of df k" for k
      using eq by (simp add: row_of_def nunique_group_card)
    then have "row_of df' = row_of df" by (rule ext)
    with group_keys_set_cong [OF eq, of rfm_segment] show ?thesis by (simp add: t)
  qed
  from set_keys dist count desc perm show ?thesis
    unfolding t [of df] u_def [symmetric] set_sort_values_desc by blast
qed

theorem segment_customer_count_witness:
  "create_rfm_segment_df numpy_reversing scenario
     = [\<lparr>sc_rfm_segment = ''Champions'', sc_customers = 2\<rparr>,
        \<lparr>sc_rfm_segment = ''At Risk'', sc_customers = 1\<rparr>] \<and>
   set (rev tie_rows) = set tie_rows \<and>
   create_rfm_segment_df numpy_reversing (rev tie_rows) = create_rfm_segment_df numpy_reversing tie_rows"
proof -
  have a: "create_rfm_segment_df numpy_reversing scenario
     = [\<lparr>sc_rfm_segment = ''Champions'', sc_customers = 2\<rparr>,
        \<lparr>sc_rfm_segment = ''At Risk'', sc_customers = 1\<rparr>]"
    by (simp add: create_rfm_segment_df_def example_defs pandas_defs)
  have b: "set (rev tie_rows) = set tie_rows" by simp
  from segment_customer_count [of numpy_reversing tie_rows] b
  have "create_rfm_segment_df numpy_reversing (rev tie_rows)
        = create_rfm_segment_df numpy_reversing tie_rows" by blast
  with a b show ?thesis by blast
qed

section \<open>State performance\<close>

text \<open>
  C8: the chart by orders is the State Performance table sorted again by total_orders,
  not a second aggregation; every row of the table holds the number of distinct order
  ids and the revenue of its state, and a state shown in both charts has the same
  total_orders and total_revenue in both.
\<close>

theorem state_views_consistent:
  "fig4_data (state_section np df_f) = take 10 (create_state_perf_df np df_f) \<and>
   fig5_data (state_section np df_f)
     = take 10 (sort_values_desc (int_ties np) sp_total_orders (create_state_perf_df np df_f)) \<and>
   (\<forall>g\<in>set (create_state_perf_df np df_f).
      sp_total_orders g = nunique order_id (group_rows customer_state (sp_customer_state g) df_f) \<and>
      sp_total_revenue g = col_sum order_revenue (group_rows customer_state (sp_customer_state g) df_f)) \<and>
   (\<forall>a\<in>set (fig4_data (state_section np df_f)). \<forall>b\<in>set (fig5_data (state_section np df_f)).
      sp_customer_state a = sp_customer_state b \<longrightarrow>
        sp_total_orders a = sp_total_orders b \<and> sp_total_revenue a = sp_total_revenue b)"
proof -
  define u where "u = map (\<lambda>k. \<lparr>sp_customer_state = k,
        sp_total_orders = nunique order_id (group_rows customer_state k df_f),
        sp_total_revenue = col_sum order_revenue (group_rows customer_state k df_f)\<rparr>)
      (group_keys customer_state df_f)"
  have t: "create_state_perf_df np df_f = sort_values_desc (float_ties np) sp_total_revenue u"
    by (simp add: create_state_perf_df_def u_def)
  have keys: "map sp_customer_state u = group_keys customer_state df_f"
    by (simp add: u_def comp_def)
  have "distinct (map sp_customer_state (create_state_perf_df np df_f))"
    by (simp add: t distinct_map_sort_values_desc keys distinct_group_keys)
  then have inj: "inj_on sp_customer_state (set (create_state_perf_df np df_f))"
    by (simp add: distinct_map)
  have rows: "sp_total_orders g = nunique order_id (group_rows customer_state (sp_customer_state g) df_f) \<and>
      sp_total_revenue g = col_sum order_revenue (group_rows customer_state (sp_customer_state g) df_f)"
    if "g \<in> set (create_state_perf_df np df_f)" for g
    using that by (auto simp: t set_sort_values_desc u_def)
  have same: "a = b"
    if a: "a \<in> set (take 10 (create_state_perf_df np df_f))"
      and b: "b \<in> set (take 10 (sort_values_desc (int_ties np) sp_total_orders (create_state_perf_df np df_f)))"
      and k: "sp_customer_state a = sp_customer_state b" for a b
  proof -
    from a have "a \<in> set (create_state_perf_df np df_f)" by (rule in_set_takeD)
    moreover from b
    have "b \<in> set (sort_values_desc (int_ties np) sp_total_orders (create_state_perf_df np df_f))"
      by (rule in_set_takeD)
    then have "b \<in> set (create_state_perf_df np df_f)" by (simp add: set_sort_values_desc)
    ultimately show ?thesis using inj k by (simp add: inj_on_def)
  qed
  have f4: "fig4_data (state_section np df_f) = take 10 (create_state_perf_df np df_f)"
    by (simp add: state_section_def Let_def)
  have f5: "fig5_data (state_section np df_f)
     = take 10 (sort_values_desc (int_ties np) sp_total_orders (create_state_perf_df np df_f))"
    by (simp add: state_section_def Let_def)
  from rows same show ?thesis unfolding f4 f5 by blast
qed

theorem state_views_consistent_witness:
  "fig4_data (state_section numpy_reversing scenario)
     = [\<lparr>sp_customer_state = ''SP'', sp_total_orders = 2, sp_total_revenue = 130\<rparr>,
        \<lparr>sp_customer_state = ''RJ'', sp_total_orders = 1, sp_total_revenue = 50\<rparr>] \<and>
   fig5_data (state_section numpy_reversing scenario)
     = fig4_data (state_section numpy_reversing scenario)"
  using state_views_consistent [of numpy_reversing scenario]
  by (simp add: state_section_def create_state_perf_df_def example_defs pandas_defs)

section \<open>The sample of the map\<close>

text \<open>Whatever the generator draws, the shuffle is a permutation of the positions.\<close>

lemma length_swap: "length (swap i j xs) = length xs"
  by (simp add: swap_def)

lemma mset_swap_rows: "i < length xs \<Longrightarrow> j < length xs \<Longrightarrow> mset (swap i j xs) = mset xs"
  unfolding swap_def by (rule mset_swap)

lemma mset_shuffle: "k < length xs \<Longrightarrow> mset (shuffle draw k xs) = mset xs"
proof (induction k arbitrary: xs)
  case 0
  show ?case by simp
next
  case (Suc k)
  let ?j = "draw (Suc k) mod Suc (Suc k)"
  have "?j < Suc (Suc k)" by simp
  with Suc.prems have j: "?j < length xs" by linarith
  from Suc.prems have "k < length (swap (Suc k) ?j xs)" by (simp add: length_swap)
  then have "mset (shuffle draw k (swap (Suc k) ?j xs)) = mset (swap (Suc k) ?j xs)"
    by (rule Suc.IH)
  also have "\<dots> = mset xs" using Suc.prems j by (rule mset_swap_rows)
  finally show ?case by simp
qed

lemma mset_permutation: "mset (permutation np seed n) = mset [0..<n]"
proof (cases n)
  case 0
  then show ?thesis by (simp add: permutation_def)
next
  case (Suc m)
  then have "n - 1 < length [0..<n]" by simp
  then show ?thesis unfolding permutation_def by (rule mset_shuffle)
qed

lemma length_permutation: "length (permutation np seed n) = n"
  using mset_permutation [of np seed n, THEN mset_eq_length] by simp

lemma distinct_permutation: "distinct (permutation np seed n)"
  using mset_permutation [of np seed n, THEN mset_eq_imp_distinct_iff] by simp

lemma set_permutation: "set (permutation np seed n) = {0..<n}"
  using mset_permutation [of np seed n, THEN mset_eq_setD] by simp

lemma take_rows_Inr:
  "\<forall>i\<in>set idx. i < length t \<Longrightarrow> take_rows t idx = Inr (map (\<lambda>i. t ! i) idx)"
  by (simp add: take_rows_def list_all_iff)

lemma sample_Inr:
  assumes "n \<le> length t"
  shows "sample np t n seed = Inr (map (\<lambda>i. t ! i) (take n (permutation np seed (length t))))"
proof -
  have "set (take n (permutation np seed (length t))) \<subseteq> {0..<length t}"
    using set_take_subset [of n "permutation np seed (length t)"] by (simp add: set_permutation)
  then have "\<forall>i\<in>set (take n (permutation np seed (length t))). i < length t" by auto
  then show ?thesis using assms by (simp add: sample_def choice_def take_rows_Inr)
qed

text \<open>
  C7: with both coordinate columns and more than 3000 rows that have both coordinates,
  the map shows the rows at the first 3000 positions of the permutation drawn with seed
  42: exactly 3000 rows, at distinct positions, each with both coordinates. Of numpy only
  the draws at seed 42 matter, so a second run on the same rows shows the same sample.
\<close>

theorem df_map_sample:
  assumes cols: "geo_columns"
    and many: "length (filter (\<lambda>r. geolocation_lat r \<noteq> None \<and> geolocation_lng r \<noteq> None) df_f) > 3000"
  shows "df_map np geo_columns df_f
           = Markers (map (\<lambda>i. dropna_geo df_f ! i)
                        (take 3000 (permutation np 42 (length (dropna_geo df_f))))) \<and>
         length (take 3000 (permutation np 42 (length (dropna_geo df_f)))) = 3000 \<and>
         distinct (take 3000 (permutation np 42 (length (dropna_geo df_f)))) \<and>
         (\<forall>i\<in>set (take 3000 (permutation np 42 (length (dropna_geo df_f)))).
            i < length (dropna_geo df_f) \<and>
            geolocation_lat (dropna_geo df_f ! i) \<noteq> None \<and>
            geolocation_lng (dropna_geo df_f ! i) \<noteq> None) \<and>
         (\<forall>np'. random_interval np' 42 (length (dropna_geo df_f))
                  = random_interval np 42 (length (dropna_geo df_f))
               \<longrightarrow> df_map np' geo_columns df_f = df_map np geo_columns df_f)"
proof -
  let ?m = "dropna_geo df_f"
  let ?idx = "\<lambda>np. take 3000 (permutation np 42 (length ?m))"
  from many have len: "length ?m > 3000" by (simp add: dropna_geo_def)
  then have ne: "?m \<noteq> []" by auto
  have run: "df_map np geo_columns df_f = Markers (map (\<lambda>i. ?m ! i) (?idx np))" for np
    using cols len ne by (simp add: df_map_def Let_def sample_Inr)
  have size: "length (?idx np) = 3000"
    using len by (simp add: length_permutation)
  have dist: "distinct (?idx np)"
    by (simp add: distinct_permutation)
  have "set (?idx np) \<subseteq> {0..<length ?m}"
    using set_take_subset [of 3000 "permutation np 42 (length ?m)"] by (simp add: set_permutation)
  then have range: "i < length ?m" if "i \<in> set (?idx np)" for i
    using that by auto
  have valid: "geolocation_lat (?m ! i) \<noteq> None \<and> geolocation_lng (?m ! i) \<noteq> None"
    if "i < length ?m" for i
  proof -
    from that have "?m ! i \<in> set ?m" by (rule nth_mem)
    then show ?thesis by (simp add: dropna_geo_def)
  qed
  have same: "df_map np' geo_columns df_f = df_map np geo_columns df_f"
    if "random_interval np' 42 (length ?m) = random_interval np 42 (length ?m)" for np'
    using that by (simp add: run permutation_def)
  from run [of np] size dist range valid same show ?thesis by blast
qed

text \<open>
  With the generator that always draws 0 the shuffle of five positions is a rotation. A
  table of at most 3000 rows with coordinates is shown whole, and without the columns
  the step is skipped.
\<close>

lemma permutation_example: "permutation numpy_keeping 42 5 = [1, 2, 3, 4, 0]"
  by code_simp

lemma df_map_short: "df_map np True [geo_row, geo_row] = Markers [geo_row, geo_row]"
  by (simp add: df_map_def dropna_geo_def geo_row_def mk_row_def)

lemma df_map_no_columns: "df_map np False df_f = Unavailable"
  by (simp add: df_map_def)

theorem df_map_sample_witness:
  "length (filter (\<lambda>r. geolocation_lat r \<noteq> None \<and> geolocation_lng r \<noteq> None)
             (replicate 3001 geo_row)) = 3001 \<and>
   length (take 3000 (permutation numpy_keeping 42 (length (dropna_geo (replicate 3001 geo_row))))) = 3000 \<and>
   df_map numpy_keeping True (replicate 3001 geo_row)
     = Markers (map (\<lambda>i. dropna_geo (replicate 3001 geo_row) ! i)
                 (take 3000 (permutation numpy_keeping 42 (length (dropna_geo (replicate 3001 geo_row))))))"
proof -
  have len: "length (filter (\<lambda>r. geolocation_lat r \<noteq> None \<and> geolocation_lng r \<noteq> None)
             (replicate 3001 geo_row)) = 3001"
    by (simp add: geo_row_def mk_row_def)
  then have many: "length (filter (\<lambda>r. geolocation_lat r \<noteq> None \<and> geolocation_lng r \<noteq> None)
             (replicate 3001 geo_row)) > 3000"
    by simp
  from df_map_sample [of True "replicate 3001 geo_row" numpy_keeping, OF TrueI many] len
  show ?thesis by blast
qed

section \<open>The input file\<close>

lemma ends_with_iff: "ends_with suf s \<longleftrightarrow> (\<exists>p. s = p @ suf)"
proof
  assume "ends_with suf s"
  then have "s = take (length s - length suf) s @ suf"
    by (metis append_take_drop_id ends_with_def)
  then show "\<exists>p. s = p @ suf" ..
next
  assume "\<exists>p. s = p @ suf"
  then show "ends_with suf s" by (auto simp: ends_with_def)
qed



end
